theory Spec2Isabelle
  imports Complex_Main
begin

section \<open>AgriBridge backend: documents, store and errors\<close>

text \<open>
  The backend keeps five collections of schemaless documents in a document store
  (\<^verbatim>\<open>farmer\<close>, \<^verbatim>\<open>buyer\<close>, \<^verbatim>\<open>product\<close>, \<^verbatim>\<open>order\<close>, \<^verbatim>\<open>route\<close>).
  A document is a Python dict: an association list from field names to values, read by
  key (\<open>map_of\<close>). Numbers are the values the floats stand for, as rationals;
  rounding, infinities and NaN are outside this development. An identifier assigned by
  the store is an \<open>ObjectId\<close>, carried as its text.
\<close>

datatype val =
    Null
  | Str string
  | Num rat
  | Boolean bool
  | ObjectId string
  | Arr "val list"
  | Doc "(string \<times> val) list"

type_synonym doc = "(string \<times> val) list"

text \<open>A store maps the name of a collection to its documents, in insertion order.\<close>

type_synonym store = "string \<Rightarrow> doc list"

text \<open>
  The module-level handle \<^verbatim>\<open>db\<close> comes from the \<^verbatim>\<open>database\<close> module. It is
  \<^verbatim>\<open>None\<close> when the backing store is unavailable and a driver \<^verbatim>\<open>Database\<close>
  otherwise: \<^verbatim>\<open>main.py\<close> calls \<^verbatim>\<open>db.list_collection_names()\<close> and
  \<^verbatim>\<open>db.client.get_default_database()\<close> on it and subscripts it by collection name.
\<close>

type_synonym db = "store option"

datatype error =
    ValidationError "string list"
  | StoreError
  | TypeError
  | NotImplementedError
  | InvalidDocument
  | OperationFailure
  | OverflowError

text \<open>
  The truth value of the handle, as \<^verbatim>\<open>if db\<close> and \<^verbatim>\<open>if not db\<close> ask for it.
  \<^verbatim>\<open>None\<close> is false. A \<^verbatim>\<open>Database\<close> of the driver has no truth value: from
  version 4 of the driver on (the one that goes with the \<^verbatim>\<open>model_json_schema\<close> of
  \<^verbatim>\<open>main.py\<close>), \<^verbatim>\<open>bool(db)\<close> raises \<^verbatim>\<open>NotImplementedError\<close> and asks for a
  comparison with \<^verbatim>\<open>None\<close>, which is what the \<^verbatim>\<open>/test\<close> handler of \<^verbatim>\<open>main.py\<close>
  writes (\<^verbatim>\<open>db is not None\<close>). The analytics handlers do not.
\<close>

definition truth_value :: "db \<Rightarrow> error + bool" where
  "truth_value db = (case db of None \<Rightarrow> Inr False | Some s \<Rightarrow> Inl NotImplementedError)"

text \<open>Assignment \<^verbatim>\<open>d[k] = v\<close> on a dict: an existing key keeps its place.\<close>

fun put :: "'k \<Rightarrow> 'v \<Rightarrow> ('k \<times> 'v) list \<Rightarrow> ('k \<times> 'v) list" where
  "put k v [] = [(k, v)]"
| "put k v ((k', w) # d) = (if k' = k then (k, v) # d else (k', w) # put k v d)"

text \<open>
  Truth value of an \<^verbatim>\<open>Optional[str]\<close> in \<^verbatim>\<open>if region:\<close>: both \<^verbatim>\<open>None\<close> and the
  empty string are false.
\<close>

fun truthy :: "string option \<Rightarrow> bool" where
  "truthy None = False"
| "truthy (Some s) = (s \<noteq> [])"

section \<open>Filters\<close>

text \<open>
  The filters built by \<^verbatim>\<open>main.py\<close> have two kinds of clause: \<^verbatim>\<open>{k: v}\<close>, equality
  with a value, and \<^verbatim>\<open>{k: {"$in": [...]}}\<close>, membership in a list. A missing field
  counts as null in both. (The store also matches an array-valued field element by
  element; no filtered field of the schemas is an array, and this is left out.)
\<close>

datatype cond = Eq val | In "val list"

type_synonym filt = "(string \<times> cond) list"

definition field :: "doc \<Rightarrow> string \<Rightarrow> val" where
  "field d k = (case map_of d k of None \<Rightarrow> Null | Some v \<Rightarrow> v)"

fun holds :: "doc \<Rightarrow> string \<times> cond \<Rightarrow> bool" where
  "holds d (k, Eq v) = (field d k = v)"
| "holds d (k, In vs) = (field d k \<in> set vs)"

definition matches :: "filt \<Rightarrow> doc \<Rightarrow> bool" where
  "matches f d = list_all (holds d) f"

text \<open>\<^verbatim>\<open>collection.find(filter)\<close>: the matching documents, in the collection's order.\<close>

definition find :: "doc list \<Rightarrow> filt \<Rightarrow> doc list" where
  "find coll f = filter (matches f) coll"

text \<open>
  Modelled from the spec: \<^verbatim>\<open>get_documents\<close> of the \<^verbatim>\<open>database\<close> module, which is
  not among the sources. The spec's \<open>list(collectionName, filter)\<close> is a filtered scan
  returning all matching documents in insertion order, an empty filter matching every
  document; a store that cannot be reached surfaces as a \<open>StoreError\<close>.
\<close>

definition get_documents :: "db \<Rightarrow> string \<Rightarrow> filt \<Rightarrow> error + doc list" where
  "get_documents db cname f =
     (case db of None \<Rightarrow> Inl StoreError | Some s \<Rightarrow> Inr (find (s cname) f))"

text \<open>
  Modelled from the spec: \<^verbatim>\<open>create_document\<close> of the \<^verbatim>\<open>database\<close> module, which is
  not among the sources. The spec's \<open>create(collectionName, validatedEntity)\<close> inserts
  the serialised entity into the named collection (one insert) and returns the newly
  generated identifier as a string; it fails with a \<open>StoreError\<close> when the store is
  unavailable. The identifier the store generates is the argument \<open>oid\<close>.
\<close>

definition create_document :: "db \<Rightarrow> string \<Rightarrow> string \<Rightarrow> doc \<Rightarrow> error + (string \<times> store)" where
  "create_document db cname oid d =
     (case db of
        None \<Rightarrow> Inl StoreError
      | Some s \<Rightarrow> Inr (oid, s(cname := s cname @ [(''_id'', ObjectId oid) # d])))"

section \<open>List endpoints\<close>

definition list_farmers :: "db \<Rightarrow> string option \<Rightarrow> error + doc list" where
  "list_farmers db region =
     (let filt = [];
          filt = (case region of
                    Some r \<Rightarrow> if truthy region then put ''region'' (Eq (Str r)) filt else filt
                  | None \<Rightarrow> filt)
      in get_documents db ''farmer'' filt)"

definition list_buyers :: "db \<Rightarrow> string option \<Rightarrow> error + doc list" where
  "list_buyers db type =
     (let filt = [];
          filt = (case type of
                    Some t \<Rightarrow> if truthy type then put ''type'' (Eq (Str t)) filt else filt
                  | None \<Rightarrow> filt)
      in get_documents db ''buyer'' filt)"

text \<open>
  \<^verbatim>\<open>list_products\<close>. With a true \<^verbatim>\<open>region\<close> the handler reads the farmer collection
  through \<^verbatim>\<open>db["farmer"]\<close> itself, which raises \<^verbatim>\<open>TypeError\<close> on a \<^verbatim>\<open>None\<close> handle,
  collects \<^verbatim>\<open>f.get("_id")\<close> of every farmer found (\<^verbatim>\<open>None\<close>, here \<open>Null\<close>, for a
  document without the key) and assigns the membership clause to the key
  \<^verbatim>\<open>farmer_id\<close>. The argument \<open>str\<close> is Python's \<^verbatim>\<open>str\<close> on stored values.
\<close>

definition list_products ::
  "(val \<Rightarrow> string) \<Rightarrow> db \<Rightarrow> string option \<Rightarrow> string option \<Rightarrow> string option \<Rightarrow> error + doc list" where
  "list_products str db farmer_id category region =
     (let filt = [];
          filt = (case farmer_id of
                    Some i \<Rightarrow> if truthy farmer_id then put ''farmer_id'' (Eq (Str i)) filt else filt
                  | None \<Rightarrow> filt);
          filt = (case category of
                    Some c \<Rightarrow> if truthy category then put ''category'' (Eq (Str c)) filt else filt
                  | None \<Rightarrow> filt)
      in case region of
           Some r \<Rightarrow>
             if truthy region then
               (case db of
                  None \<Rightarrow> Inl TypeError
                | Some s \<Rightarrow>
                    let farmer_ids = map (\<lambda>f. field f ''_id'') (find (s ''farmer'') [(''region'', Eq (Str r))])
                    in get_documents db ''product''
                         (put ''farmer_id'' (In (map (\<lambda>fid. Str (str fid)) farmer_ids)) filt))
             else get_documents db ''product'' filt
         | None \<Rightarrow> get_documents db ''product'' filt)"

definition list_orders :: "db \<Rightarrow> string option \<Rightarrow> string option \<Rightarrow> error + doc list" where
  "list_orders db buyer_id status =
     (let filt = [];
          filt = (case buyer_id of
                    Some b \<Rightarrow> if truthy buyer_id then put ''buyer_id'' (Eq (Str b)) filt else filt
                  | None \<Rightarrow> filt);
          filt = (case status of
                    Some t \<Rightarrow> if truthy status then put ''status'' (Eq (Str t)) filt else filt
                  | None \<Rightarrow> filt)
      in get_documents db ''order'' filt)"

text \<open>\<^verbatim>\<open>list_routes\<close> tests \<^verbatim>\<open>cold_chain is not None\<close>, not its truth value.\<close>

definition list_routes :: "db \<Rightarrow> string option \<Rightarrow> bool option \<Rightarrow> error + doc list" where
  "list_routes db date cold_chain =
     (let filt = [];
          filt = (case date of
                    Some t \<Rightarrow> if truthy date then put ''date'' (Eq (Str t)) filt else filt
                  | None \<Rightarrow> filt);
          filt = (case cold_chain of
                    Some b \<Rightarrow> put ''cold_chain'' (Eq (Boolean b)) filt
                  | None \<Rightarrow> filt)
      in get_documents db ''route'' filt)"

section \<open>Aggregation pipelines\<close>

text \<open>
  The analytics handlers hand a list of stages to \<^verbatim>\<open>collection.aggregate\<close>. The
  stages and operators that \<^verbatim>\<open>main.py\<close> names are interpreted here as the store
  documents them.
  \<^item> An expression is a constant or a field path \<^verbatim>\<open>"$a.b"\<close>; a path that leaves the
    document is missing (\<open>None\<close>).
  \<^item> \<^verbatim>\<open>$sum\<close> adds the numeric values of its expression over the group and ignores
    the others; \<^verbatim>\<open>$avg\<close> is the mean of the numeric values and null when there are
    none.
  \<^item> \<^verbatim>\<open>$group\<close> emits one document per distinct key, the key under \<^verbatim>\<open>_id\<close>, a missing
    key counting as null. The store fixes no order of the groups; first occurrence is
    taken here.
  \<^item> \<^verbatim>\<open>$unwind\<close> emits one copy of the document per element of the array, none for a
    missing, null or empty one, and the document itself for any other value.
  \<^item> \<^verbatim>\<open>$sort\<close> compares values of different types by the rank of their type, null
    below numbers; numbers by value. Values of one other type are left in place: the
    pipelines here sort on a computed number or null. The sort is an insertion sort
    that keeps equal keys in order.
  \<^item> \<^verbatim>\<open>$limit\<close> takes a positive integer that fits 64 bits; the pipeline is refused
    before it runs otherwise (the driver cannot encode a larger integer, the store
    rejects one that is not positive).
\<close>

datatype expr = Const val | Path "string list"

datatype accumulator = Sum expr | Avg expr

datatype direction = Ascending | Descending

datatype stage =
    Match filt
  | Unwind string
  | Group expr "(string \<times> accumulator) list"
  | Sort string direction
  | Limit int

fun lookup_path :: "string list \<Rightarrow> doc \<Rightarrow> val option" where
  "lookup_path [] d = None"
| "lookup_path [k] d = map_of d k"
| "lookup_path (k # ks) d =
     (case map_of d k of Some (Doc e) \<Rightarrow> lookup_path ks e | _ \<Rightarrow> None)"

fun eval_expr :: "expr \<Rightarrow> doc \<Rightarrow> val option" where
  "eval_expr (Const v) d = Some v"
| "eval_expr (Path p) d = lookup_path p d"

fun numbers :: "val option list \<Rightarrow> rat list" where
  "numbers [] = []"
| "numbers (Some (Num r) # vs) = r # numbers vs"
| "numbers (v # vs) = numbers vs"

fun eval_acc :: "accumulator \<Rightarrow> doc list \<Rightarrow> val" where
  "eval_acc (Sum e) ds = Num (sum_list (numbers (map (eval_expr e) ds)))"
| "eval_acc (Avg e) ds =
     (let ns = numbers (map (eval_expr e) ds)
      in if ns = [] then Null else Num (sum_list ns / of_nat (length ns)))"

definition group_key :: "expr \<Rightarrow> doc \<Rightarrow> val" where
  "group_key e d = (case eval_expr e d of None \<Rightarrow> Null | Some v \<Rightarrow> v)"

text \<open>The groups of a list, each key with its members, in order of first occurrence.\<close>

fun add_member :: "val \<Rightarrow> doc \<Rightarrow> (val \<times> doc list) list \<Rightarrow> (val \<times> doc list) list" where
  "add_member k d [] = [(k, [d])]"
| "add_member k d ((k', ds) # gs) =
     (if k' = k then (k', ds @ [d]) # gs else (k', ds) # add_member k d gs)"

definition groups :: "expr \<Rightarrow> doc list \<Rightarrow> (val \<times> doc list) list" where
  "groups e ds = foldl (\<lambda>gs d. add_member (group_key e d) d gs) [] ds"

definition group_row :: "(string \<times> accumulator) list \<Rightarrow> val \<times> doc list \<Rightarrow> doc" where
  "group_row accs g = (''_id'', fst g) # map (\<lambda>(name, a). (name, eval_acc a (snd g))) accs"

fun unwind_doc :: "string \<Rightarrow> doc \<Rightarrow> doc list" where
  "unwind_doc k d =
     (case map_of d k of
        None \<Rightarrow> []
      | Some Null \<Rightarrow> []
      | Some (Arr xs) \<Rightarrow> map (\<lambda>x. put k x d) xs
      | Some v \<Rightarrow> [d])"

fun bson_rank :: "val \<Rightarrow> nat" where
  "bson_rank Null = 2"
| "bson_rank (Num r) = 3"
| "bson_rank (Str s) = 4"
| "bson_rank (Doc e) = 5"
| "bson_rank (Arr xs) = 6"
| "bson_rank (ObjectId h) = 8"
| "bson_rank (Boolean b) = 9"

fun bson_le :: "val \<Rightarrow> val \<Rightarrow> bool" where
  "bson_le (Num a) (Num b) = (a \<le> b)"
| "bson_le v w = (bson_rank v \<le> bson_rank w)"

fun before :: "string \<Rightarrow> direction \<Rightarrow> doc \<Rightarrow> doc \<Rightarrow> bool" where
  "before k Ascending a b = bson_le (field a k) (field b k)"
| "before k Descending a b = bson_le (field b k) (field a k)"

fun insert_by :: "('a \<Rightarrow> 'a \<Rightarrow> bool) \<Rightarrow> 'a \<Rightarrow> 'a list \<Rightarrow> 'a list" where
  "insert_by le x [] = [x]"
| "insert_by le x (y # ys) = (if le x y then x # y # ys else y # insert_by le x ys)"

definition sort_by :: "('a \<Rightarrow> 'a \<Rightarrow> bool) \<Rightarrow> 'a list \<Rightarrow> 'a list" where
  "sort_by le xs = foldr (insert_by le) xs []"

fun stage_error :: "stage \<Rightarrow> error option" where
  "stage_error (Limit n) =
     (if 2 ^ 63 - 1 < n then Some OverflowError
      else if n \<le> 0 then Some OperationFailure
      else None)"
| "stage_error st = None"

fun run_stage :: "doc list \<Rightarrow> stage \<Rightarrow> doc list" where
  "run_stage ds (Match f) = find ds f"
| "run_stage ds (Unwind k) = concat (map (unwind_doc k) ds)"
| "run_stage ds (Group e accs) = map (group_row accs) (groups e ds)"
| "run_stage ds (Sort k dir) = sort_by (before k dir) ds"
| "run_stage ds (Limit n) = take (nat n) ds"

definition aggregate :: "doc list \<Rightarrow> stage list \<Rightarrow> error + doc list" where
  "aggregate coll pipeline =
     (case List.map_filter stage_error pipeline of
        e # es \<Rightarrow> Inl e
      | [] \<Rightarrow> Inr (foldl run_stage coll pipeline))"

section \<open>Analytics endpoints\<close>

text \<open>
  Each handler builds a pipeline and hands it to \<^verbatim>\<open>aggregate\<close> on a collection of
  the handle, behind a test of the handle's truth value. The pipelines are named here
  so that what they compute can be stated apart from that test.
\<close>

definition pricing_pipeline :: "string option \<Rightarrow> stage list" where
  "pricing_pipeline category =
     (let pipeline = [];
          pipeline = (case category of
                        Some c \<Rightarrow> if truthy category
                                  then pipeline @ [Match [(''category'', Eq (Str c))]]
                                  else pipeline
                      | None \<Rightarrow> pipeline)
      in pipeline @
           [Group (Path [''category''])
              [(''avg_price'', Avg (Path [''price''])), (''count'', Sum (Const (Num 1)))],
            Sort ''avg_price'' Ascending])"

text \<open>
  \<^verbatim>\<open>results = list(db["product"].aggregate(pipeline)) if db else []\<close>: the
  condition is evaluated first, and an exception of it leaves the handler.
\<close>

definition pricing_trends :: "db \<Rightarrow> string option \<Rightarrow> error + doc list" where
  "pricing_trends db category =
     (let pipeline = pricing_pipeline category
      in case truth_value db of
           Inl e \<Rightarrow> Inl e
         | Inr b \<Rightarrow>
             if b then (case db of
                          Some s \<Rightarrow> aggregate (s ''product'') pipeline
                        | None \<Rightarrow> Inl TypeError)
             else Inr [])"

definition demand_pipeline :: "int \<Rightarrow> stage list" where
  "demand_pipeline limit =
     [Unwind ''items'',
      Group (Path [''items'', ''product_id''])
        [(''orders'', Sum (Const (Num 1))), (''qty'', Sum (Path [''items'', ''quantity'']))],
      Sort ''orders'' Descending,
      Limit limit]"

text \<open>\<^verbatim>\<open>if not db: return []\<close>, then the pipeline on \<^verbatim>\<open>db["order"]\<close>.\<close>

definition demand_forecast :: "db \<Rightarrow> int \<Rightarrow> error + doc list" where
  "demand_forecast db limit =
     (case truth_value db of
        Inl e \<Rightarrow> Inl e
      | Inr b \<Rightarrow>
          if \<not> b then Inr []
          else (case db of
                  Some s \<Rightarrow> aggregate (s ''order'') (demand_pipeline limit)
                | None \<Rightarrow> Inl TypeError))"

definition supply_pipeline :: "stage list" where
  "supply_pipeline =
     [Group (Path [''category''])
        [(''available'', Sum (Path [''available_quantity''])), (''items'', Sum (Const (Num 1)))],
      Sort ''available'' Descending]"

definition supply_overview :: "db \<Rightarrow> error + doc list" where
  "supply_overview db =
     (case truth_value db of
        Inl e \<Rightarrow> Inl e
      | Inr b \<Rightarrow>
          if \<not> b then Inr []
          else (case db of
                  Some s \<Rightarrow> aggregate (s ''product'') supply_pipeline
                | None \<Rightarrow> Inl TypeError))"

section \<open>Entities and creation\<close>

text \<open>
  The entities of \<^verbatim>\<open>schemas.py\<close>, with the fields already parsed to their declared
  types. Validation checks the bounds the fields declare (\<^verbatim>\<open>ge=0\<close>, \<^verbatim>\<open>gt=0\<close>) and
  reports every offending field, in declaration order.
\<close>

record Product =
  farmer_id :: string
  title :: string
  category :: string
  price :: rat
  unit :: string
  available_quantity :: rat
  photos :: "string list"
  description :: "string option"

record OrderItem =
  product_id :: string
  quantity :: rat
  price :: rat

record Order =
  buyer_id :: string
  items :: "OrderItem list"
  status :: string
  delivery_method :: string
  scheduled_date :: "string option"
  route_id :: "string option"

definition Product_errors :: "Product \<Rightarrow> string list" where
  "Product_errors p =
     (if 0 \<le> Product.price p then [] else [''price'']) @
     (if 0 \<le> available_quantity p then [] else [''available_quantity''])"

definition validate_Product :: "Product \<Rightarrow> error + Product" where
  "validate_Product p =
     (if Product_errors p = [] then Inr p else Inl (ValidationError (Product_errors p)))"

definition OrderItem_errors :: "OrderItem \<Rightarrow> string list" where
  "OrderItem_errors i =
     (if 0 < quantity i then [] else [''quantity'']) @
     (if 0 \<le> OrderItem.price i then [] else [''price''])"

definition validate_OrderItem :: "OrderItem \<Rightarrow> error + OrderItem" where
  "validate_OrderItem i =
     (if OrderItem_errors i = [] then Inr i else Inl (ValidationError (OrderItem_errors i)))"



text \<open>The document a validated product is serialised to.\<close>

definition opt_str :: "string option \<Rightarrow> val" where
  "opt_str x = (case x of None \<Rightarrow> Null | Some t \<Rightarrow> Str t)"

definition Product_doc :: "Product \<Rightarrow> doc" where
  "Product_doc p =
     [(''farmer_id'', Str (farmer_id p)),
      (''title'', Str (title p)),
      (''category'', Str (category p)),
      (''price'', Num (Product.price p)),
      (''unit'', Str (unit p)),
      (''available_quantity'', Num (available_quantity p)),
      (''photos'', Arr (map Str (photos p))),
      (''description'', opt_str (description p))]"

text \<open>
  \<^verbatim>\<open>collection.find_one({k: {"$eq": x}})\<close>. The driver encodes the filter before it
  sends it: a value of the store's types goes through, any other Python object (a
  function, a method) cannot be encoded and the call raises \<^verbatim>\<open>InvalidDocument\<close>.
  With an encodable value the answer is the first matching document, if any.
\<close>

datatype pyobject = Value val | Callable string

definition find_one :: "doc list \<Rightarrow> string \<Rightarrow> pyobject \<Rightarrow> error + doc option" where
  "find_one coll k x =
     (case x of
        Callable name \<Rightarrow> Inl InvalidDocument
      | Value v \<Rightarrow> Inr (case find coll [(k, Eq v)] of [] \<Rightarrow> None | d # ds \<Rightarrow> Some d))"

text \<open>
  \<^verbatim>\<open>create_product\<close>. Before the insert the handler evaluates, unguarded,
  \<^verbatim>\<open>exists = db["farmer"].find_one({"_id": {"$eq": ...document_class.__init__}})\<close>:
  the filter value is the method \<^verbatim>\<open>__init__\<close> of the driver's document class
  (\<^verbatim>\<open>dict\<close>), read from the codec options, not the payload's \<^verbatim>\<open>farmer_id\<close>. The call
  raises for every payload, so the lines after it, the insert among them, are never
  reached with an available store. \<^verbatim>\<open>db["farmer"]\<close> on a \<^verbatim>\<open>None\<close> handle raises
  \<^verbatim>\<open>TypeError\<close> before any of it.
\<close>

definition create_product :: "db \<Rightarrow> string \<Rightarrow> Product \<Rightarrow> error + (doc \<times> store)" where
  "create_product db oid payload =
     (let fid = farmer_id payload
      in case db of
           None \<Rightarrow> Inl TypeError
         | Some s \<Rightarrow>
             (case find_one (s ''farmer'') ''_id'' (Callable ''dict.__init__'') of
                Inl e \<Rightarrow> Inl e
              | Inr exists \<Rightarrow>
                  (case create_document db ''product'' oid (Product_doc payload) of
                     Inl e \<Rightarrow> Inl e
                   | Inr (pid, s') \<Rightarrow> Inr ([(''id'', Str pid)], s'))))"

section \<open>What the analytics are to compute\<close>

text \<open>
  The notions of the specification, written independently of the pipeline interpreter,
  against which the pipelines of the handlers are compared below: the products of one category, the
  prices that are present, their arithmetic mean (null when there is none), the row
  reported for a category; the item records of all orders, the product an item names,
  the quantities of a list of items, the row reported for a product. None of them is
  used by the model above.
\<close>

text \<open>A document contributes its price when the field holds a number.\<close>

definition prices :: "doc list \<Rightarrow> rat list" where
  "prices ds = concat (map (\<lambda>d. case map_of d ''price'' of Some (Num r) \<Rightarrow> [r] | _ \<Rightarrow> []) ds)"

definition mean :: "rat list \<Rightarrow> val" where
  "mean ns = (if ns = [] then Null else Num (sum_list ns / of_nat (length ns)))"

definition in_category :: "val \<Rightarrow> doc list \<Rightarrow> doc list" where
  "in_category k ds = filter (\<lambda>d. field d ''category'' = k) ds"

text \<open>The optional restriction to one category; an empty parameter restricts nothing.\<close>

definition restrict_category :: "string option \<Rightarrow> doc list \<Rightarrow> doc list" where
  "restrict_category c ds =
     (case c of
        None \<Rightarrow> ds
      | Some t \<Rightarrow> if t = [] then ds else filter (\<lambda>d. field d ''category'' = Str t) ds)"

definition has_price :: "doc \<Rightarrow> bool" where
  "has_price d = (case map_of d ''price'' of Some (Num r) \<Rightarrow> True | _ \<Rightarrow> False)"

definition pricing_row :: "doc list \<Rightarrow> val \<Rightarrow> doc" where
  "pricing_row ds k =
     [(''_id'', k),
      (''avg_price'', mean (prices (in_category k ds))),
      (''count'', Num (of_nat (length (in_category k ds))))]"

text \<open>Every order's item sequence, flattened into individual item records.\<close>

definition item_records :: "doc list \<Rightarrow> val list" where
  "item_records ds =
     concat (map (\<lambda>d. case map_of d ''items'' of
                         None \<Rightarrow> []
                       | Some Null \<Rightarrow> []
                       | Some (Arr xs) \<Rightarrow> xs
                       | Some v \<Rightarrow> [v]) ds)"

definition item_field :: "val \<Rightarrow> string \<Rightarrow> val" where
  "item_field i f = (case i of Doc e \<Rightarrow> field e f | _ \<Rightarrow> Null)"

definition with_product :: "val \<Rightarrow> val list \<Rightarrow> val list" where
  "with_product k is = filter (\<lambda>i. item_field i ''product_id'' = k) is"

definition quantities :: "val list \<Rightarrow> rat list" where
  "quantities is = concat (map (\<lambda>i. case item_field i ''quantity'' of Num r \<Rightarrow> [r] | _ \<Rightarrow> []) is)"

definition demand_row :: "val list \<Rightarrow> val \<Rightarrow> doc" where
  "demand_row is k =
     [(''_id'', k),
      (''orders'', Num (of_nat (length (with_product k is)))),
      (''qty'', Num (sum_list (quantities (with_product k is))))]"

text \<open>
  The identifiers, rendered as strings, of the farmers of a region, and the optional
  category clause of the product filter.
\<close>

definition region_farmer_ids :: "(val \<Rightarrow> string) \<Rightarrow> string \<Rightarrow> doc list \<Rightarrow> val list" where
  "region_farmer_ids str r farmers =
     map (\<lambda>f. Str (str (field f ''_id''))) (filter (\<lambda>f. field f ''region'' = Str r) farmers)"

definition in_category_opt :: "string option \<Rightarrow> doc \<Rightarrow> bool" where
  "in_category_opt c p =
     (case c of None \<Rightarrow> True | Some t \<Rightarrow> t = [] \<or> field p ''category'' = Str t)"

section \<open>Example data\<close>

text \<open>A store that holds one collection, and the entities and documents of the examples.\<close>

definition store_of :: "string \<Rightarrow> doc list \<Rightarrow> store" where
  "store_of cname ds = (\<lambda>n. if n = cname then ds else [])"

definition tomatoes :: "rat \<Rightarrow> rat \<Rightarrow> Product" where
  "tomatoes pr qty = \<lparr>farmer_id = ''f1'', title = ''Tomatoes'', category = ''Vegetables'',
     price = pr, unit = ''kg'', available_quantity = qty, photos = [], description = None\<rparr>"


definition veg_fruit_products :: "doc list" where
  "veg_fruit_products =
     [[(''category'', Str ''veg''), (''price'', Num 10)],
      [(''category'', Str ''veg''), (''price'', Num 20)],
      [(''category'', Str ''fruit''), (''price'', Num 5)]]"

definition unpriced_products :: "doc list" where
  "unpriced_products =
     [[(''category'', Str ''veg''), (''price'', Num 10)],
      [(''category'', Str ''veg'')]]"

definition mixed_products :: "doc list" where
  "mixed_products =
     [[(''category'', Str ''veg''), (''price'', Num 10)],
      [(''category'', Str ''veg'')],
      [(''category'', Str ''veg''), (''price'', Num 20)]]"

definition three_orders :: "doc list" where
  "three_orders =
     [[(''items'', Arr [Doc [(''product_id'', Str ''p1''), (''quantity'', Num 2)]])],
      [(''items'', Arr [Doc [(''product_id'', Str ''p1''), (''quantity'', Num 1)]])],
      [(''items'', Arr [Doc [(''product_id'', Str ''p2''), (''quantity'', Num 5)]])]]"

text \<open>Python's \<^verbatim>\<open>str\<close> on an identifier; the examples apply it to identifiers only.\<close>

definition oid_text :: "val \<Rightarrow> string" where
  "oid_text v = (case v of ObjectId h \<Rightarrow> h | _ \<Rightarrow> [])"

definition tashkent_store :: store where
  "tashkent_store =
     (store_of ''farmer''
        [[(''_id'', ObjectId ''a1''), (''name'', Str ''Aziz''), (''region'', Str ''Tashkent'')],
         [(''_id'', ObjectId ''b2''), (''name'', Str ''Bek''), (''region'', Str ''Samarkand'')]])
     (''product'' :=
        [[(''farmer_id'', Str ''a1''), (''title'', Str ''Tomatoes'')],
         [(''farmer_id'', Str ''b2''), (''title'', Str ''Melons'')]])"

section \<open>Filters and list endpoints: properties\<close>

lemma find_filter: "find coll f = filter (\<lambda>d. list_all (holds d) f) coll"
  unfolding find_def by (rule filter_cong) (simp_all add: matches_def)

lemma field_eq_Boolean: "(field d k = Boolean b) = (map_of d k = Some (Boolean b))"
  by (auto simp: field_def split: option.splits)

text \<open>
  C8: listing routes with \<^verbatim>\<open>cold_chain\<close> unset returns all routes, whatever their
  \<^verbatim>\<open>cold_chain\<close> value; with \<^verbatim>\<open>cold_chain\<close> explicitly false it returns only the routes
  whose \<^verbatim>\<open>cold_chain\<close> field is exactly false. The second holds under any \<^verbatim>\<open>date\<close>
  parameter as well: an explicit false narrows what the unset parameter returns.
\<close>

theorem list_routes_cold_chain:
  "list_routes (Some s) None None = Inr (s ''route'') \<and>
   list_routes (Some s) None (Some False) =
     Inr (filter (\<lambda>d. map_of d ''cold_chain'' = Some (Boolean False)) (s ''route'')) \<and>
   list_routes (Some s) date (Some False) =
     map_sum id (filter (\<lambda>d. map_of d ''cold_chain'' = Some (Boolean False)))
       (list_routes (Some s) date None)"
  by (cases date)
    (auto simp: list_routes_def get_documents_def find_filter field_eq_Boolean)

text \<open>
  C10: on the list endpoints for farmers, buyers, products and orders, a string query
  parameter equal to the empty string behaves exactly like an omitted one: it adds no
  filter clause. Listing farmers with \<^verbatim>\<open>region=""\<close> returns every farmer.
\<close>

theorem empty_string_parameter:
  "list_farmers db (Some '''') = list_farmers db None \<and>
   list_buyers db (Some '''') = list_buyers db None \<and>
   list_products str db (Some '''') cat reg = list_products str db None cat reg \<and>
   list_products str db fid (Some '''') reg = list_products str db fid None reg \<and>
   list_products str db fid cat (Some '''') = list_products str db fid cat None \<and>
   list_orders db (Some '''') st = list_orders db None st \<and>
   list_orders db bid (Some '''') = list_orders db bid None \<and>
   list_farmers (Some s) (Some '''') = Inr (s ''farmer'')"
  by (simp add: list_farmers_def list_buyers_def list_products_def list_orders_def
      get_documents_def find_filter)

lemma list_products_region_filter:
  assumes "r \<noteq> []"
  shows "list_products str (Some s) fid cat (Some r) =
     Inr (filter (\<lambda>p. field p ''farmer_id'' \<in> set (region_farmer_ids str r (s ''farmer'')) \<and>
                       in_category_opt cat p) (s ''product''))"
proof -
  have ids: "map (\<lambda>fid. Str (str fid))
        (map (\<lambda>f. field f ''_id'') (find (s ''farmer'') [(''region'', Eq (Str r))])) =
      region_farmer_ids str r (s ''farmer'')"
    by (simp add: region_farmer_ids_def find_filter comp_def)
  show ?thesis
    using assms
    by (cases fid; cases cat)
      (auto simp: list_products_def get_documents_def ids[simplified] find_filter
        in_category_opt_def region_farmer_ids_def comp_def intro!: filter_cong)
qed

text \<open>
  C1 (as amended): for every product-listing request with a non-empty \<^verbatim>\<open>region\<close>
  parameter and an available store, the filter builder reads the farmers of that
  region, and the listing returns the products whose \<^verbatim>\<open>farmer_id\<close> is among their
  identifiers rendered as strings (and which satisfy the category clause, if any). The
  membership clause replaces a \<^verbatim>\<open>farmer_id\<close> equality clause: the result is the same
  as with no \<^verbatim>\<open>farmer_id\<close> parameter. When no farmer has the region the result is the
  empty sequence, not an error.
\<close>

theorem list_products_region:
  "r \<noteq> [] \<longrightarrow>
     list_products str (Some s) fid cat (Some r) =
       Inr (filter (\<lambda>p. field p ''farmer_id'' \<in> set (region_farmer_ids str r (s ''farmer'')) \<and>
                         in_category_opt cat p) (s ''product'')) \<and>
     list_products str (Some s) fid cat (Some r) = list_products str (Some s) None cat (Some r) \<and>
     ((\<forall>f \<in> set (s ''farmer''). field f ''region'' \<noteq> Str r) \<longrightarrow>
        list_products str (Some s) fid cat (Some r) = Inr [])"
proof (intro impI conjI)
  assume r: "r \<noteq> []"
  show "list_products str (Some s) fid cat (Some r) =
       Inr (filter (\<lambda>p. field p ''farmer_id'' \<in> set (region_farmer_ids str r (s ''farmer'')) \<and>
                         in_category_opt cat p) (s ''product''))"
    using r by (rule list_products_region_filter)
  show "list_products str (Some s) fid cat (Some r) = list_products str (Some s) None cat (Some r)"
    using r by (simp add: list_products_region_filter)
  assume "\<forall>f \<in> set (s ''farmer''). field f ''region'' \<noteq> Str r"
  then have "region_farmer_ids str r (s ''farmer'') = []"
    by (simp add: region_farmer_ids_def filter_empty_conv)
  then show "list_products str (Some s) fid cat (Some r) = Inr []"
    using r by (simp add: list_products_region_filter)
qed

text \<open>
  The theorem at a store with a farmer in Tashkent and one in Samarkand: the region
  Tashkent overrides the parameter \<^verbatim>\<open>farmer_id=b2\<close>, and Bukhara, where nobody farms,
  yields the empty sequence.
\<close>

theorem list_products_region_witness:
  "''Tashkent'' \<noteq> [] \<and>
   list_products oid_text (Some tashkent_store) (Some ''b2'') None (Some ''Tashkent'') =
     Inr [[(''farmer_id'', Str ''a1''), (''title'', Str ''Tomatoes'')]] \<and>
   filter (\<lambda>f. field f ''region'' = Str ''Bukhara'') (tashkent_store ''farmer'') = [] \<and>
   list_products oid_text (Some tashkent_store) (Some ''b2'') None (Some ''Bukhara'') = Inr []"
  using list_products_region[of "''Tashkent''" oid_text tashkent_store "Some ''b2''" None]
    list_products_region[of "''Bukhara''" oid_text tashkent_store "Some ''b2''" None]
  by (simp add: tashkent_store_def store_of_def region_farmer_ids_def in_category_opt_def
      oid_text_def field_def)

text \<open>
  C1 as stated fails for the empty string: \<^verbatim>\<open>if region:\<close> is false, no farmer is
  looked up and the \<^verbatim>\<open>farmer_id\<close> equality clause stays. No farmer has the region
  \<^verbatim>\<open>""\<close>, yet the listing is not empty.
\<close>

theorem list_products_empty_region_counterexample:
  "find (tashkent_store ''farmer'') [(''region'', Eq (Str ''''))] = [] \<and>
   list_products oid_text (Some tashkent_store) (Some ''b2'') None (Some '''') =
     Inr [[(''farmer_id'', Str ''b2''), (''title'', Str ''Melons'')]]"
  by (simp add: list_products_def get_documents_def find_filter tashkent_store_def store_of_def
      field_def)

section \<open>Creation: properties\<close>

text \<open>
  C9: product creation does not insert the document. The lookup that precedes the
  insert compares \<^verbatim>\<open>_id\<close> with a method object, which the driver cannot encode; it
  raises for every payload and every state of the store, whether or not the payload's
  \<^verbatim>\<open>farmer_id\<close> names a farmer, and \<^verbatim>\<open>create_document\<close> is never called. With
  the store unavailable the handler fails on \<^verbatim>\<open>db["farmer"]\<close>.
\<close>

theorem create_product_raises:
  "create_product (Some s) oid p = Inl InvalidDocument \<and>
   create_product None oid p = Inl TypeError \<and>
   validate_Product (tomatoes 0 5) = Inr (tomatoes 0 5) \<and>
   create_product (Some tashkent_store) ''c3'' (tomatoes 0 5) = Inl InvalidDocument"
  by (simp add: create_product_def find_one_def validate_Product_def Product_errors_def
      tomatoes_def)



section \<open>Sorting and grouping\<close>

text \<open>
  The comparison of the sort stage is total and transitive, so the insertion sort
  returns a sorted arrangement of its input; sorting a list of rows computed from keys
  is the same as arranging the keys.
\<close>

lemma bson_le_total: "bson_le a b \<or> bson_le b a"
  by (cases a; cases b) auto

lemma bson_le_trans: "bson_le a b \<Longrightarrow> bson_le b c \<Longrightarrow> bson_le a c"
  by (cases a; cases b; cases c) auto

lemma before_asc_total: "before k dir a b \<or> before k dir b a"
  by (cases dir) (simp_all add: bson_le_total)

lemma before_asc_trans: "before k dir a b \<Longrightarrow> before k dir b c \<Longrightarrow> before k dir a c"
  by (cases dir) (auto intro: bson_le_trans)

lemma set_insert_by: "set (insert_by le x xs) = insert x (set xs)"
  by (induction xs) auto

lemma sorted_insert_by:
  assumes tot: "\<And>a b. le a b \<or> le b a" and tr: "\<And>a b c. le a b \<Longrightarrow> le b c \<Longrightarrow> le a c"
  shows "sorted_wrt le xs \<Longrightarrow> sorted_wrt le (insert_by le x xs)"
proof (induction xs)
  case Nil
  then show ?case by simp
next
  case (Cons y ys)
  show ?case
  proof (cases "le x y")
    case True
    with Cons.prems tr show ?thesis by auto
  next
    case False
    with tot have "le y x" by blast
    with Cons False show ?thesis by (auto simp: set_insert_by)
  qed
qed

lemma sort_by_Cons: "sort_by le (x # xs) = insert_by le x (sort_by le xs)"
  by (simp add: sort_by_def)

lemma sort_by_Nil: "sort_by le [] = []"
  by (simp add: sort_by_def)

lemma sorted_sort_by:
  assumes tot: "\<And>a b. le a b \<or> le b a" and tr: "\<And>a b c. le a b \<Longrightarrow> le b c \<Longrightarrow> le a c"
  shows "sorted_wrt le (sort_by le xs)"
  by (induction xs) (simp_all add: sort_by_Nil sort_by_Cons sorted_insert_by[OF tot tr])

lemma set_sort_by: "set (sort_by le xs) = set xs"
  by (induction xs) (simp_all add: sort_by_Nil sort_by_Cons set_insert_by)

lemma distinct_insert_by: "distinct (insert_by le x xs) = (x \<notin> set xs \<and> distinct xs)"
  by (induction xs) (auto simp: set_insert_by)

lemma distinct_sort_by: "distinct (sort_by le xs) = distinct xs"
  by (induction xs) (simp_all add: sort_by_Nil sort_by_Cons distinct_insert_by set_sort_by)

lemma insert_by_map:
  "insert_by le (f x) (map f xs) = map f (insert_by (\<lambda>a b. le (f a) (f b)) x xs)"
  by (induction xs) auto

lemma sort_by_map: "sort_by le (map f xs) = map f (sort_by (\<lambda>a b. le (f a) (f b)) xs)"
  by (induction xs) (simp_all add: sort_by_Nil sort_by_Cons insert_by_map)

lemma sort_stage_rows:
  "\<exists>ks'. distinct ks' = distinct ks \<and> set ks' = set ks \<and>
     sorted_wrt (\<lambda>a b. before k dir (row a) (row b)) ks' \<and>
     run_stage (map row ks) (Sort k dir) = map row ks'"
proof -
  let ?le = "\<lambda>a b. before k dir (row a) (row b)"
  have tot: "\<And>a b. ?le a b \<or> ?le b a" by (rule before_asc_total)
  have tr: "\<And>a b c. ?le a b \<Longrightarrow> ?le b c \<Longrightarrow> ?le a c" by (rule before_asc_trans)
  have 1: "sorted_wrt ?le (sort_by ?le ks)"
    using tot tr by (rule sorted_sort_by)
  have 2: "run_stage (map row ks) (Sort k dir) = map row (sort_by ?le ks)"
    by (simp add: sort_by_map)
  show ?thesis
    by (rule exI[of _ "sort_by ?le ks"]) (simp only: distinct_sort_by set_sort_by 1 2 simp_thms)
qed

text \<open>
  Grouping yields each distinct key once, with exactly the documents that have the key,
  in their order.
\<close>

lemma add_member_map:
  "distinct ks \<Longrightarrow>
   add_member k d (map (\<lambda>j. (j, f j)) ks) =
     (if k \<in> set ks then map (\<lambda>j. (j, if j = k then f j @ [d] else f j)) ks
      else map (\<lambda>j. (j, f j)) ks @ [(k, [d])])"
  by (induction ks) auto

lemma groups_snoc: "groups e (ds @ [d]) = add_member (group_key e d) d (groups e ds)"
  by (simp add: groups_def)

lemma groups_keys:
  "\<exists>ks. distinct ks \<and> set ks = group_key e ` set ds \<and>
        groups e ds = map (\<lambda>k. (k, filter (\<lambda>d. group_key e d = k) ds)) ks"
proof (induction ds rule: rev_induct)
  case Nil
  show ?case by (simp add: groups_def)
next
  case (snoc d ds)
  then obtain ks where ks: "distinct ks" "set ks = group_key e ` set ds"
    "groups e ds = map (\<lambda>k. (k, filter (\<lambda>d. group_key e d = k) ds)) ks" by blast
  let ?k = "group_key e d"
  show ?case
  proof (cases "?k \<in> set ks")
    case True
    have "groups e (ds @ [d]) = map (\<lambda>k. (k, filter (\<lambda>d. group_key e d = k) (ds @ [d]))) ks"
      using True ks(1) by (simp add: groups_snoc ks(3) add_member_map)
    with ks True show ?thesis by (intro exI[of _ ks]) auto
  next
    case False
    then have "\<forall>x \<in> set ds. group_key e x \<noteq> ?k"
      using ks(2) by (metis imageI)
    then have "filter (\<lambda>x. group_key e x = ?k) ds = []"
      by (simp add: filter_empty_conv)
    then have "groups e (ds @ [d]) =
        map (\<lambda>k. (k, filter (\<lambda>d. group_key e d = k) (ds @ [d]))) (ks @ [?k])"
      using False ks(1) by (auto simp: groups_snoc ks(3) add_member_map)
    with ks False show ?thesis by (intro exI[of _ "ks @ [?k]"]) auto
  qed
qed

lemma group_stage_rows:
  "\<exists>ks. distinct ks \<and> set ks = group_key e ` set ds \<and>
     run_stage ds (Group e accs) =
       map (\<lambda>k. group_row accs (k, filter (\<lambda>d. group_key e d = k) ds)) ks"
proof -
  obtain ks where ks: "distinct ks" "set ks = group_key e ` set ds"
    "groups e ds = map (\<lambda>k. (k, filter (\<lambda>d. group_key e d = k) ds)) ks"
    using groups_keys by blast
  have "run_stage ds (Group e accs) =
      map (\<lambda>k. group_row accs (k, filter (\<lambda>d. group_key e d = k) ds)) ks"
    unfolding run_stage.simps ks(3) map_map comp_def ..
  with ks(1,2) show ?thesis by blast
qed

lemma group_key_path1: "group_key (Path [k]) d = field d k"
  by (simp add: group_key_def field_def)

lemma numbers_path1:
  "numbers (map (eval_expr (Path [k])) ds) =
     concat (map (\<lambda>d. case map_of d k of Some (Num r) \<Rightarrow> [r] | _ \<Rightarrow> []) ds)"
  by (induction ds) (auto split: option.splits val.splits)

lemma numbers_const: "numbers (map (eval_expr (Const (Num c))) ds) = replicate (length ds) c"
  by (induction ds) auto

lemma count_acc: "eval_acc (Sum (Const (Num 1))) ds = Num (of_nat (length ds))"
  by (simp add: numbers_const sum_list_replicate)

section \<open>Pricing trends\<close>

lemma avg_price_acc: "eval_acc (Avg (Path [''price''])) ds = mean (prices ds)"
  by (simp add: numbers_path1 mean_def prices_def Let_def)

lemma pricing_group_row:
  "group_row [(''avg_price'', Avg (Path [''price''])), (''count'', Sum (Const (Num 1)))]
     (k, in_category k ds) = pricing_row ds k"
  unfolding group_row_def pricing_row_def
  by (simp only: count_acc avg_price_acc fst_conv snd_conv list.map prod.case)

lemma pricing_row_avg: "field (pricing_row ds k) ''avg_price'' = mean (prices (in_category k ds))"
  by (simp add: pricing_row_def field_def)

lemma pricing_groups:
  "\<exists>ks. distinct ks \<and> set ks = (\<lambda>p. field p ''category'') ` set ds \<and>
     map (group_row [(''avg_price'', Avg (Path [''price''])), (''count'', Sum (Const (Num 1)))])
       (groups (Path [''category'']) ds) = map (pricing_row ds) ks"
proof -
  obtain ks where ks: "distinct ks" "set ks = group_key (Path [''category'']) ` set ds"
    "groups (Path [''category'']) ds =
       map (\<lambda>k. (k, filter (\<lambda>d. group_key (Path [''category'']) d = k) ds)) ks"
    using groups_keys by blast
  have g: "groups (Path [''category'']) ds = map (\<lambda>k. (k, in_category k ds)) ks"
    unfolding ks(3) in_category_def group_key_path1 ..
  have "map (group_row [(''avg_price'', Avg (Path [''price''])), (''count'', Sum (Const (Num 1)))])
       (groups (Path [''category'']) ds) = map (pricing_row ds) ks"
    unfolding g map_map comp_def pricing_group_row ..
  moreover have "set ks = (\<lambda>p. field p ''category'') ` set ds"
    using ks(2) unfolding group_key_path1 .
  ultimately show ?thesis using ks(1) by blast
qed

lemma pricing_stages_rows:
  "\<exists>ks. distinct ks \<and> set ks = (\<lambda>p. field p ''category'') ` set ds \<and>
     sorted_wrt (\<lambda>j k. bson_le (mean (prices (in_category j ds))) (mean (prices (in_category k ds)))) ks \<and>
     foldl run_stage ds
       [Group (Path [''category''])
          [(''avg_price'', Avg (Path [''price''])), (''count'', Sum (Const (Num 1)))],
        Sort ''avg_price'' Ascending] = map (pricing_row ds) ks"
proof -
  let ?accs = "[(''avg_price'', Avg (Path [''price''])), (''count'', Sum (Const (Num 1)))]"
  obtain ks where ks: "distinct ks" "set ks = (\<lambda>p. field p ''category'') ` set ds"
    "map (group_row ?accs) (groups (Path [''category'']) ds) = map (pricing_row ds) ks"
    using pricing_groups[of ds] by blast
  obtain ks' where ks': "distinct ks' = distinct ks" "set ks' = set ks"
    "sorted_wrt (\<lambda>a b. before ''avg_price'' Ascending (pricing_row ds a) (pricing_row ds b)) ks'"
    "run_stage (map (pricing_row ds) ks) (Sort ''avg_price'' Ascending) = map (pricing_row ds) ks'"
    using sort_stage_rows[of ks "''avg_price''" Ascending "pricing_row ds"] by blast
  have sorted: "sorted_wrt (\<lambda>j k. bson_le (mean (prices (in_category j ds))) (mean (prices (in_category k ds)))) ks'"
    using ks'(3) by (simp only: before.simps pricing_row_avg)
  have run: "foldl run_stage ds [Group (Path [''category'']) ?accs, Sort ''avg_price'' Ascending]
      = map (pricing_row ds) ks'"
    unfolding foldl.simps run_stage.simps(3) ks(3) ks'(4) ..
  have "distinct ks'" using ks(1) ks'(1) by simp
  moreover have "set ks' = (\<lambda>p. field p ''category'') ` set ds" using ks(2) ks'(2) by simp
  ultimately show ?thesis using sorted run by blast
qed

lemma aggregate_pricing:
  "aggregate ds (pricing_pipeline c) =
     Inr (foldl run_stage (restrict_category c ds)
       [Group (Path [''category''])
          [(''avg_price'', Avg (Path [''price''])), (''count'', Sum (Const (Num 1)))],
        Sort ''avg_price'' Ascending])"
  by (cases c)
    (simp_all add: pricing_pipeline_def aggregate_def List.map_filter_simps
      restrict_category_def find_filter)

lemma pricing_trends_handle:
  "pricing_trends (Some s) c = Inl NotImplementedError"
  "pricing_trends None c = Inr []"
  by (simp_all add: pricing_trends_def truth_value_def)

lemma pricing_example:
  "aggregate veg_fruit_products (pricing_pipeline None) =
     Inr [[(''_id'', Str ''fruit''), (''avg_price'', Num 5), (''count'', Num 1)],
          [(''_id'', Str ''veg''), (''avg_price'', Num 15), (''count'', Num 2)]]"
  by (simp add: aggregate_pricing restrict_category_def veg_fruit_products_def groups_def
      group_key_def group_row_def sort_by_def field_def)

text \<open>
  C2 (as amended): with no category parameter, the pipeline that pricing trends hands
  to the store yields, for every product collection, one row per distinct category,
  each with the arithmetic mean of the prices present in the group and the number of
  its members, in ascending order of the mean. The category is carried under the key
  \<^verbatim>\<open>_id\<close>, as the group stage emits it: for the three products of the
  specification's example the rows are
  \<^verbatim>\<open>[{_id: "fruit", avg_price: 5, count: 1}, {_id: "veg", avg_price: 15, count: 2}]\<close>.
  Nothing is said here of what the handler returns once the store is available.
\<close>

theorem pricing_trends_by_category:
  "(\<exists>ks. distinct ks \<and>
      set ks = (\<lambda>p. field p ''category'') ` set ds \<and>
      sorted_wrt (\<lambda>j k. bson_le (mean (prices (in_category j ds)))
                             (mean (prices (in_category k ds)))) ks \<and>
      aggregate ds (pricing_pipeline None) = Inr (map (pricing_row ds) ks)) \<and>
   aggregate veg_fruit_products (pricing_pipeline None) =
     Inr [[(''_id'', Str ''fruit''), (''avg_price'', Num 5), (''count'', Num 1)],
          [(''_id'', Str ''veg''), (''avg_price'', Num 15), (''count'', Num 2)]]"
proof
  show "\<exists>ks. distinct ks \<and>
      set ks = (\<lambda>p. field p ''category'') ` set ds \<and>
      sorted_wrt (\<lambda>j k. bson_le (mean (prices (in_category j ds)))
                             (mean (prices (in_category k ds)))) ks \<and>
      aggregate ds (pricing_pipeline None) = Inr (map (pricing_row ds) ks)"
    using pricing_stages_rows[of ds] by (simp add: aggregate_pricing restrict_category_def)
  show "aggregate veg_fruit_products (pricing_pipeline None) =
     Inr [[(''_id'', Str ''fruit''), (''avg_price'', Num 5), (''count'', Num 1)],
          [(''_id'', Str ''veg''), (''avg_price'', Num 15), (''count'', Num 2)]]"
    by (rule pricing_example)
qed

text \<open>
  C2 as stated fails at the example's products: with the store available the handler
  ends in the error of the truth test, and the rows its pipeline yields carry the key
  \<^verbatim>\<open>_id\<close>, not \<^verbatim>\<open>category\<close>.
\<close>

theorem pricing_trends_key_counterexample:
  "pricing_trends (Some (store_of ''product'' veg_fruit_products)) None =
     Inl NotImplementedError \<and>
   aggregate veg_fruit_products (pricing_pipeline None) \<noteq>
     Inr [[(''category'', Str ''fruit''), (''avg_price'', Num 5), (''count'', Num 1)],
          [(''category'', Str ''veg''), (''avg_price'', Num 15), (''count'', Num 2)]]"
  by (simp add: pricing_trends_handle pricing_example)

lemma length_prices: "length (prices ds) = length (filter has_price ds)"
  by (induction ds) (auto simp: prices_def has_price_def split: option.splits val.splits)

lemma pricing_row_explicit:
  "pricing_row ds k =
     [(''_id'', k),
      (''avg_price'',
         if filter has_price (in_category k ds) = [] then Null
         else Num (sum_list (prices (in_category k ds)) /
                   of_nat (length (filter has_price (in_category k ds))))),
      (''count'', Num (of_nat (length (in_category k ds))))]"
proof -
  have "(prices (in_category k ds) = []) = (filter has_price (in_category k ds) = [])"
    using length_prices[of "in_category k ds"] by (metis length_0_conv)
  then show ?thesis
    by (simp add: pricing_row_def mean_def length_prices)
qed

lemma mixed_example:
  "aggregate mixed_products (pricing_pipeline None) =
     Inr [[(''_id'', Str ''veg''), (''avg_price'', Num 15), (''count'', Num 3)]]"
  by (simp add: aggregate_pricing restrict_category_def mixed_products_def groups_def
      group_key_def group_row_def sort_by_def field_def)

text \<open>
  C3 (as amended): in the pricing-trends aggregation, for any category parameter, every
  category of the selected products is reported in exactly one row; a document without
  a price is left out of the row's mean, both of its sum and of its divisor (the mean
  is null when no member has a price), while \<^verbatim>\<open>count\<close> is the number of all members
  of the group, priced or not. Of three vegetables, one without a price, the row
  reports the mean of the two priced ones and count 3.
\<close>

theorem pricing_trends_missing_price:
  "(\<exists>ks. distinct ks \<and>
      set ks = (\<lambda>p. field p ''category'') ` set (restrict_category c ds) \<and>
      aggregate ds (pricing_pipeline c) =
        Inr (map (\<lambda>k.
               [(''_id'', k),
                (''avg_price'',
                   if filter has_price (in_category k (restrict_category c ds)) = [] then Null
                   else Num (sum_list (prices (in_category k (restrict_category c ds))) /
                             of_nat (length (filter has_price
                                               (in_category k (restrict_category c ds)))))),
                (''count'', Num (of_nat (length (in_category k (restrict_category c ds)))))])
             ks)) \<and>
   aggregate mixed_products (pricing_pipeline None) =
     Inr [[(''_id'', Str ''veg''), (''avg_price'', Num 15), (''count'', Num 3)]] \<and>
   length (filter has_price mixed_products) = 2"
proof (intro conjI)
  obtain ks where ks: "distinct ks"
    "set ks = (\<lambda>p. field p ''category'') ` set (restrict_category c ds)"
    "aggregate ds (pricing_pipeline c) = Inr (map (pricing_row (restrict_category c ds)) ks)"
    using pricing_stages_rows[of "restrict_category c ds"] unfolding aggregate_pricing by blast
  show "\<exists>ks. distinct ks \<and>
      set ks = (\<lambda>p. field p ''category'') ` set (restrict_category c ds) \<and>
      aggregate ds (pricing_pipeline c) =
        Inr (map (\<lambda>k.
               [(''_id'', k),
                (''avg_price'',
                   if filter has_price (in_category k (restrict_category c ds)) = [] then Null
                   else Num (sum_list (prices (in_category k (restrict_category c ds))) /
                             of_nat (length (filter has_price
                                               (in_category k (restrict_category c ds)))))),
                (''count'', Num (of_nat (length (in_category k (restrict_category c ds)))))])
             ks)"
    using ks unfolding pricing_row_explicit[symmetric] by blast
  show "aggregate mixed_products (pricing_pipeline None) =
     Inr [[(''_id'', Str ''veg''), (''avg_price'', Num 15), (''count'', Num 3)]]"
    by (rule mixed_example)
  show "length (filter has_price mixed_products) = 2"
    by (simp add: mixed_products_def has_price_def)
qed

text \<open>
  C3 as stated fails: of two vegetables one has a price, and the row of the
  aggregation reports \<^verbatim>\<open>count: 2\<close>; the handler itself, with the store available,
  ends in the error of the truth test.
\<close>

theorem pricing_trends_count_counterexample:
  "aggregate unpriced_products (pricing_pipeline None) =
     Inr [[(''_id'', Str ''veg''), (''avg_price'', Num 10), (''count'', Num 2)]] \<and>
   length (filter has_price unpriced_products) = 1 \<and>
   pricing_trends (Some (store_of ''product'' unpriced_products)) None =
     Inl NotImplementedError"
  by (simp add: aggregate_pricing restrict_category_def unpriced_products_def groups_def
      group_key_def group_row_def sort_by_def field_def has_price_def pricing_trends_handle)

section \<open>Demand forecast\<close>

text \<open>
  The unwound documents carry the item records under \<^verbatim>\<open>items\<close>; the group key and
  the summed quantity of the pipeline read the item record only.
\<close>

lemma map_of_put: "map_of (put k v d) k = Some v"
  by (induction d) auto

lemma field_put: "field (put k v d) k = v"
  by (simp add: field_def map_of_put)

lemma field_Some: "map_of d k = Some v \<Longrightarrow> field d k = v"
  by (simp add: field_def)

lemma unwind_items: "map (\<lambda>u. field u k) (unwind_doc k d) =
    (case map_of d k of None \<Rightarrow> [] | Some Null \<Rightarrow> [] | Some (Arr xs) \<Rightarrow> xs | Some v \<Rightarrow> [v])"
  by (auto simp: field_put field_Some comp_def split: option.splits val.splits)

lemma unwind_item_records:
  "map (\<lambda>u. field u ''items'') (run_stage ds (Unwind ''items'')) = item_records ds"
  by (induction ds) (simp_all add: item_records_def unwind_items del: unwind_doc.simps)

lemma item_key: "group_key (Path [''items'', f]) u = item_field (field u ''items'') f"
  by (auto simp: group_key_def item_field_def field_def split: option.splits val.splits)

lemma item_quantities:
  "numbers (map (eval_expr (Path [''items'', ''quantity''])) us) =
     quantities (map (\<lambda>u. field u ''items'') us)"
  by (induction us)
    (auto simp: quantities_def item_field_def field_def split: option.splits val.splits)

lemma demand_group_row:
  "group_row [(''orders'', Sum (Const (Num 1))), (''qty'', Sum (Path [''items'', ''quantity'']))]
     (k, filter (\<lambda>u. group_key (Path [''items'', ''product_id'']) u = k) us) =
   demand_row (map (\<lambda>u. field u ''items'') us) k"
proof -
  let ?ms = "filter (\<lambda>u. group_key (Path [''items'', ''product_id'']) u = k) us"
  have m: "map (\<lambda>u. field u ''items'') ?ms = with_product k (map (\<lambda>u. field u ''items'') us)"
    by (simp add: with_product_def filter_map comp_def item_key)
  have c: "eval_acc (Sum (Const (Num 1))) ?ms = Num (of_nat (length (with_product k (map (\<lambda>u. field u ''items'') us))))"
    unfolding count_acc m[symmetric] by simp
  have q: "eval_acc (Sum (Path [''items'', ''quantity''])) ?ms =
      Num (sum_list (quantities (with_product k (map (\<lambda>u. field u ''items'') us))))"
    unfolding eval_acc.simps item_quantities m ..
  show ?thesis
    unfolding group_row_def demand_row_def fst_conv snd_conv list.map prod.case c q ..
qed

lemma demand_row_orders: "field (demand_row is k) ''orders'' = Num (of_nat (length (with_product k is)))"
  by (simp add: demand_row_def field_def)

lemma demand_stages_rows:
  "\<exists>ks. distinct ks \<and>
     set ks = (\<lambda>i. item_field i ''product_id'') ` set (item_records ds) \<and>
     sorted_wrt (\<lambda>j k. length (with_product k (item_records ds)) \<le> length (with_product j (item_records ds))) ks \<and>
     foldl run_stage ds
       [Unwind ''items'',
        Group (Path [''items'', ''product_id''])
          [(''orders'', Sum (Const (Num 1))), (''qty'', Sum (Path [''items'', ''quantity'']))],
        Sort ''orders'' Descending,
        Limit n] = take (nat n) (map (demand_row (item_records ds)) ks)"
proof -
  let ?us = "run_stage ds (Unwind ''items'')"
  let ?e = "Path [''items'', ''product_id'']"
  let ?accs = "[(''orders'', Sum (Const (Num 1))), (''qty'', Sum (Path [''items'', ''quantity'']))]"
  let ?I = "item_records ds"
  obtain ks where ks: "distinct ks" "set ks = group_key ?e ` set ?us"
    "run_stage ?us (Group ?e ?accs) =
       map (\<lambda>k. group_row ?accs (k, filter (\<lambda>d. group_key ?e d = k) ?us)) ks"
    using group_stage_rows[of ?e ?us ?accs] by blast
  have rows: "run_stage ?us (Group ?e ?accs) = map (demand_row ?I) ks"
    unfolding ks(3) demand_group_row unwind_item_records ..
  have "group_key ?e ` set ?us = (\<lambda>i. item_field i ''product_id'') ` set (map (\<lambda>u. field u ''items'') ?us)"
    by (simp add: image_image item_key)
  then have keys: "set ks = (\<lambda>i. item_field i ''product_id'') ` set ?I"
    unfolding ks(2) unwind_item_records .
  obtain ks' where ks': "distinct ks' = distinct ks" "set ks' = set ks"
    "sorted_wrt (\<lambda>a b. before ''orders'' Descending (demand_row ?I a) (demand_row ?I b)) ks'"
    "run_stage (map (demand_row ?I) ks) (Sort ''orders'' Descending) = map (demand_row ?I) ks'"
    using sort_stage_rows[of ks "''orders''" Descending "demand_row ?I"] by blast
  have sorted: "sorted_wrt (\<lambda>j k. length (with_product k ?I) \<le> length (with_product j ?I)) ks'"
    using ks'(3) by (simp add: demand_row_orders)
  have run: "foldl run_stage ds [Unwind ''items'', Group ?e ?accs, Sort ''orders'' Descending, Limit n]
      = take (nat n) (map (demand_row ?I) ks')"
    unfolding foldl.simps rows ks'(4) run_stage.simps(5) ..
  have "distinct ks'" using ks(1) ks'(1) by simp
  moreover have "set ks' = (\<lambda>i. item_field i ''product_id'') ` set ?I" using keys ks'(2) by simp
  ultimately show ?thesis using sorted run by blast
qed

lemma aggregate_demand:
  assumes "0 < limit" "limit \<le> 2 ^ 63 - 1"
  shows "aggregate ds (demand_pipeline limit) =
     Inr (foldl run_stage ds
       [Unwind ''items'',
        Group (Path [''items'', ''product_id''])
          [(''orders'', Sum (Const (Num 1))), (''qty'', Sum (Path [''items'', ''quantity'']))],
        Sort ''orders'' Descending,
        Limit limit])"
  using assms by (simp add: demand_pipeline_def aggregate_def List.map_filter_simps)

lemma aggregate_demand_refused:
  "limit \<le> 0 \<Longrightarrow> aggregate ds (demand_pipeline limit) = Inl OperationFailure"
  by (simp add: demand_pipeline_def aggregate_def List.map_filter_simps)

lemma demand_forecast_handle:
  "demand_forecast (Some s) limit = Inl NotImplementedError"
  "demand_forecast None limit = Inr []"
  by (simp_all add: demand_forecast_def truth_value_def)

lemma demand_example:
  "aggregate three_orders (demand_pipeline 1) =
     Inr [[(''_id'', Str ''p1''), (''orders'', Num 2), (''qty'', Num 3)]]"
  by (simp add: aggregate_demand three_orders_def groups_def group_key_def
      group_row_def sort_by_def field_def)

text \<open>
  C4 (as amended): for every order collection and every limit from 1 to \<open>2\<^sup>6\<^sup>3 - 1\<close>,
  the pipeline that the demand forecast hands to the store flattens the orders' items
  into item records, groups them by \<^verbatim>\<open>product_id\<close>, reports for each group the number
  of item occurrences (\<^verbatim>\<open>orders\<close>) and the summed quantity (\<^verbatim>\<open>qty\<close>), in descending
  order of \<^verbatim>\<open>orders\<close>, and keeps the first \<open>limit\<close> rows. The product is carried under
  the key \<^verbatim>\<open>_id\<close>: with limit 1 and the three orders of the specification's example
  the rows are exactly \<^verbatim>\<open>[{_id: "p1", orders: 2, qty: 3}]\<close>. Nothing is said here of
  what the handler returns once the store is available.
\<close>

theorem demand_forecast_top_products:
  "(0 < limit \<and> limit \<le> 2 ^ 63 - 1 \<longrightarrow>
      (\<exists>ks. distinct ks \<and>
         set ks = (\<lambda>i. item_field i ''product_id'') ` set (item_records ds) \<and>
         sorted_wrt (\<lambda>j k. length (with_product k (item_records ds))
                              \<le> length (with_product j (item_records ds))) ks \<and>
         aggregate ds (demand_pipeline limit) =
           Inr (take (nat limit) (map (demand_row (item_records ds)) ks)))) \<and>
   aggregate three_orders (demand_pipeline 1) =
     Inr [[(''_id'', Str ''p1''), (''orders'', Num 2), (''qty'', Num 3)]]"
proof (intro conjI impI)
  assume "0 < limit \<and> limit \<le> 2 ^ 63 - 1"
  then have run: "aggregate ds (demand_pipeline limit) =
     Inr (foldl run_stage ds
       [Unwind ''items'',
        Group (Path [''items'', ''product_id''])
          [(''orders'', Sum (Const (Num 1))), (''qty'', Sum (Path [''items'', ''quantity'']))],
        Sort ''orders'' Descending,
        Limit limit])"
    by (simp add: aggregate_demand)
  show "\<exists>ks. distinct ks \<and>
         set ks = (\<lambda>i. item_field i ''product_id'') ` set (item_records ds) \<and>
         sorted_wrt (\<lambda>j k. length (with_product k (item_records ds))
                              \<le> length (with_product j (item_records ds))) ks \<and>
         aggregate ds (demand_pipeline limit) =
           Inr (take (nat limit) (map (demand_row (item_records ds)) ks))"
    unfolding run using demand_stages_rows[of ds limit] by simp
next
  show "aggregate three_orders (demand_pipeline 1) =
     Inr [[(''_id'', Str ''p1''), (''orders'', Num 2), (''qty'', Num 3)]]"
    by (rule demand_example)
qed

text \<open>The theorem at limit 1 and the three orders of the example.\<close>

theorem demand_forecast_top_products_witness:
  "(0::int) < 1 \<and> (1::int) \<le> 2 ^ 63 - 1 \<and>
   (\<exists>ks. distinct ks \<and>
      set ks = (\<lambda>i. item_field i ''product_id'') ` set (item_records three_orders) \<and>
      aggregate three_orders (demand_pipeline 1) =
        Inr (take 1 (map (demand_row (item_records three_orders)) ks)))"
  using demand_forecast_top_products[of 1 three_orders]
  by auto

text \<open>
  C4 as stated fails at the example's orders: with the store available the handler
  ends in the error of the truth test, and the row its pipeline yields carries the key
  \<^verbatim>\<open>_id\<close>, not \<^verbatim>\<open>product_id\<close>.
\<close>

theorem demand_forecast_key_counterexample:
  "demand_forecast (Some (store_of ''order'' three_orders)) 1 = Inl NotImplementedError \<and>
   aggregate three_orders (demand_pipeline 1) \<noteq>
     Inr [[(''product_id'', Str ''p1''), (''orders'', Num 2), (''qty'', Num 3)]]"
  by (simp add: demand_forecast_handle demand_example)

text \<open>
  C5 (as amended): with the store unavailable the demand forecast accepts every integer
  limit without error and returns the empty sequence, for limit 0 in particular. The
  pipeline it builds hands the limit unchanged to the \<^verbatim>\<open>$limit\<close> stage: the store
  accepts it for every limit from 1 to \<open>2\<^sup>6\<^sup>3 - 1\<close> and yields at most that many rows,
  and refuses it for limit 0. Nothing is said here of what the handler returns once the
  store is available.
\<close>

theorem demand_forecast_limit:
  "demand_forecast None limit = Inr [] \<and>
   (0 < limit \<and> limit \<le> 2 ^ 63 - 1 \<longrightarrow>
      (\<exists>rows. aggregate ds (demand_pipeline limit) = Inr rows \<and> length rows \<le> nat limit)) \<and>
   aggregate ds (demand_pipeline 0) = Inl OperationFailure"
proof (intro conjI impI)
  show "demand_forecast None limit = Inr []"
    by (rule demand_forecast_handle)
next
  assume lim: "0 < limit \<and> limit \<le> 2 ^ 63 - 1"
  obtain ks where "aggregate ds (demand_pipeline limit) =
      Inr (take (nat limit) (map (demand_row (item_records ds)) ks))"
    using demand_stages_rows[of ds limit] lim by (auto simp: aggregate_demand)
  then show "\<exists>rows. aggregate ds (demand_pipeline limit) = Inr rows \<and> length rows \<le> nat limit"
    by simp
next
  show "aggregate ds (demand_pipeline 0) = Inl OperationFailure"
    by (simp add: aggregate_demand_refused)
qed

text \<open>The theorem at limit 2 and the three orders of the example.\<close>

theorem demand_forecast_limit_witness:
  "demand_forecast None 2 = Inr [] \<and> (0::int) < 2 \<and> (2::int) \<le> 2 ^ 63 - 1 \<and>
   (\<exists>rows. aggregate three_orders (demand_pipeline 2) = Inr rows \<and> length rows \<le> 2)"
  using demand_forecast_limit[of 2 three_orders]
  by simp

text \<open>
  C5 as stated fails at limit 0 with the store available: the handler ends in the error
  of the truth test, and the pipeline it would hand over is refused by the \<^verbatim>\<open>$limit\<close>
  stage, which takes a positive integer.
\<close>

theorem demand_forecast_zero_counterexample:
  "demand_forecast (Some (store_of ''order'' three_orders)) 0 = Inl NotImplementedError \<and>
   aggregate three_orders (demand_pipeline 0) = Inl OperationFailure"
  by (simp add: demand_forecast_handle aggregate_demand_refused)

section \<open>Unavailable store and empty collections\<close>

lemma supply_overview_handle:
  "supply_overview (Some s) = Inl NotImplementedError"
  "supply_overview None = Inr []"
  by (simp_all add: supply_overview_def truth_value_def)

lemma restrict_category_Nil: "restrict_category c [] = []"
  by (simp add: restrict_category_def split: option.splits)

lemma aggregate_empty:
  "aggregate [] (pricing_pipeline c) = Inr []"
  "aggregate [] supply_pipeline = Inr []"
  "aggregate [] (demand_pipeline 10) = Inr []"
proof -
  show "aggregate [] (pricing_pipeline c) = Inr []"
    by (simp add: aggregate_pricing restrict_category_Nil groups_def sort_by_def)
  show "aggregate [] supply_pipeline = Inr []"
    by (simp add: supply_pipeline_def aggregate_def List.map_filter_simps groups_def sort_by_def)
  show "aggregate [] (demand_pipeline 10) = Inr []"
    by (simp add: aggregate_demand groups_def sort_by_def)
qed

text \<open>
  C7: the three analytics handlers return the empty sequence when the store is
  unavailable. With the store available they do not degrade: the truth test of the
  handle raises before any pipeline runs, for every state of the collections and every
  parameter, an empty collection included, although each pipeline yields the empty
  sequence on an empty collection (the demand forecast's at its default limit 10).
\<close>

theorem analytics_truth_test:
  "pricing_trends None c = Inr [] \<and>
   demand_forecast None limit = Inr [] \<and>
   supply_overview None = Inr [] \<and>
   pricing_trends (Some s) c = Inl NotImplementedError \<and>
   demand_forecast (Some s) limit = Inl NotImplementedError \<and>
   supply_overview (Some s) = Inl NotImplementedError \<and>
   pricing_trends (Some (store_of ''product'' [])) None = Inl NotImplementedError \<and>
   aggregate [] (pricing_pipeline c) = Inr [] \<and>
   aggregate [] supply_pipeline = Inr [] \<and>
   aggregate [] (demand_pipeline 10) = Inr []"
  by (simp add: pricing_trends_handle demand_forecast_handle supply_overview_handle
      aggregate_empty)

end
